theory Spec2Isabelle
  imports Main "HOL-Library.Sublist"
begin

section \<open>The OpenSSL dependency check of \<^verbatim>\<open>scripts/check-openssl.py\<close>\<close>

text \<open>
  The script runs \<^verbatim>\<open>cargo tree -i openssl --workspace\<close> once, looks at the exit status and
  the captured standard error of that command, prints a coloured status line (and, on
  failure, the raw text of the command) and leaves with exit code 0 or 1.

  Bytes are \<^typ>\<open>char list\<close>. Python's \<^verbatim>\<open>str\<close> is modelled as \<^typ>\<open>string\<close>, the text in its
  UTF-8 encoding; the substring test \<^verbatim>\<open>a in b\<close> on two \<^verbatim>\<open>str\<close> is \<^const>\<open>sublist\<close>
  (\<open>b = ps @ a @ ss\<close> for some \<open>ps\<close>, \<open>ss\<close>). Python's unbounded \<^verbatim>\<open>int\<close> is \<^typ>\<open>int\<close>.
\<close>

subsection \<open>Colours\<close>

text \<open>\<^verbatim>\<open>class Colors(StrEnum)\<close>: three members, each formatting as its escape sequence.\<close>

datatype Colors = GREEN | RED | RESET

fun color_value :: "Colors \<Rightarrow> string" where
  "color_value GREEN = CHR 0x1B # ''[92m''"
| "color_value RED = CHR 0x1B # ''[91m''"
| "color_value RESET = CHR 0x1B # ''[0m''"

subsection \<open>The process and its environment\<close>

text \<open>
  What the script does to the outside: the commands it starts, in order, and the characters
  that reach its standard output. The standard error of the script, where the interpreter
  writes the traceback of an uncaught exception, is not part of the model.
\<close>

record world =
  spawned :: "string list list"
  printed :: string

text \<open>
  What a started child process did: its exit status (negative when a signal killed it) and
  the bytes it wrote to its standard output and standard error.
\<close>

record child =
  child_status :: int
  child_stdout :: "char list"
  child_stderr :: "char list"

text \<open>
  The environment the script runs in, as far as the script reads it: what running an
  argument vector yields (\<open>None\<close> when the executable cannot be started), and the strict
  decoder of the locale's encoding, which \<^verbatim>\<open>text=True\<close> applies to captured bytes
  (\<open>None\<close> when the bytes are not valid in that encoding).
\<close>

record os =
  execute :: "string list \<Rightarrow> child option"
  decode :: "char list \<Rightarrow> string option"

text \<open>
  The values an attribute of \<^verbatim>\<open>subprocess.CompletedProcess\<close> can hold: \<^verbatim>\<open>None\<close> for a
  stream that was not captured, \<^verbatim>\<open>bytes\<close> for one captured in binary mode, \<^verbatim>\<open>str\<close> for one
  captured in text mode.
\<close>

datatype pyval = PyNone | PyBytes "char list" | PyStr string

record CompletedProcess =
  returncode :: int
  stdout :: pyval
  stderr :: pyval

text \<open>
  The exceptions that can leave the functions below: \<^verbatim>\<open>sys.exit(n)\<close> raises
  \<^verbatim>\<open>SystemExit(n)\<close>; \<^verbatim>\<open>subprocess.run\<close> raises \<^verbatim>\<open>CalledProcessError\<close> on a non-zero status
  when called with \<^verbatim>\<open>check=True\<close>, an \<^verbatim>\<open>OSError\<close> when the executable cannot be started, and
  \<^verbatim>\<open>UnicodeDecodeError\<close> when captured bytes do not decode; \<^verbatim>\<open>in\<close> raises \<^verbatim>\<open>TypeError\<close> when its
  right operand is \<^verbatim>\<open>None\<close>, or \<^verbatim>\<open>bytes\<close> with a \<^verbatim>\<open>str\<close> on the left.
\<close>

datatype exn = SystemExit int | CalledProcessError int | OSError | UnicodeDecodeError | TypeError

text \<open>
  \<^verbatim>\<open>print(s)\<close>: the text and a newline, appended to standard output. Standard output is
  held as the text written to it; its encoding is that of the locale, in which the status
  lines and any text decoded by the call can be written back.
\<close>

definition print_py :: "string \<Rightarrow> world \<Rightarrow> world" where
  "print_py s w = w\<lparr>printed := printed w @ s @ [CHR 0x0A]\<rparr>"

text \<open>
  \<^verbatim>\<open>repr\<close> of a \<^verbatim>\<open>bytes\<close> object: \<^verbatim>\<open>b'...'\<close>, in double quotes when the bytes hold a single
  quote and no double quote, with backslash escapes for the quote, the backslash, tab,
  newline, carriage return, and \<^verbatim>\<open>\xhh\<close> for every other byte outside 0x20..0x7E.
\<close>

definition hexdigit :: "nat \<Rightarrow> char" where
  "hexdigit n = ''0123456789abcdef'' ! n"

definition repr_byte :: "char \<Rightarrow> char \<Rightarrow> string" where
  "repr_byte quote c =
     (if c = quote \<or> c = CHR 0x5C then [CHR 0x5C, c]
      else if c = CHR 0x09 then [CHR 0x5C, CHR ''t'']
      else if c = CHR 0x0A then [CHR 0x5C, CHR ''n'']
      else if c = CHR 0x0D then [CHR 0x5C, CHR ''r'']
      else if (of_char c :: nat) < 0x20 \<or> 0x7F \<le> (of_char c :: nat)
        then [CHR 0x5C, CHR ''x'', hexdigit ((of_char c :: nat) div 16),
              hexdigit ((of_char c :: nat) mod 16)]
      else [c])"

definition bytes_repr :: "char list \<Rightarrow> string" where
  "bytes_repr b =
     (let quote = (if CHR 0x27 \<in> set b \<and> CHR 0x22 \<notin> set b then CHR 0x22 else CHR 0x27)
      in CHR ''b'' # quote # concat (map (repr_byte quote) b) @ [quote])"

text \<open>\<^verbatim>\<open>str(x)\<close>, which is what \<^verbatim>\<open>print(x)\<close> writes.\<close>

fun py_str :: "pyval \<Rightarrow> string" where
  "py_str (PyStr s) = s"
| "py_str PyNone = ''None''"
| "py_str (PyBytes b) = bytes_repr b"

text \<open>\<^verbatim>\<open>sub in x\<close> for a \<^verbatim>\<open>str\<close> on the left.\<close>

fun py_in :: "string \<Rightarrow> pyval \<Rightarrow> exn + bool" where
  "py_in sub (PyStr s) = Inr (sublist sub s)"
| "py_in sub PyNone = Inl TypeError"
| "py_in sub (PyBytes b) = Inl TypeError"

text \<open>
  The newline translation of text mode:
  \<^verbatim>\<open>data.replace("\r\n", "\n").replace("\r", "\n")\<close>.
\<close>

fun universal_newlines :: "string \<Rightarrow> string" where
  "universal_newlines [] = []"
| "universal_newlines (c # rest) =
     (if c = CHR 0x0D
      then CHR 0x0A # universal_newlines (if rest \<noteq> [] \<and> hd rest = CHR 0x0A then tl rest else rest)
      else c # universal_newlines rest)"

text \<open>
  \<^verbatim>\<open>subprocess._translate_newlines(data, encoding, errors)\<close> with \<^verbatim>\<open>errors="strict"\<close>:
  decode, which may raise, then translate the newlines.
\<close>

definition translate_newlines :: "(char list \<Rightarrow> string option) \<Rightarrow> char list \<Rightarrow> exn + string" where
  "translate_newlines codec data =
     (case codec data of
        None \<Rightarrow> Inl UnicodeDecodeError
      | Some s \<Rightarrow> Inr (universal_newlines s))"

text \<open>
  \<^verbatim>\<open>subprocess.run(argv, capture_output=..., text=..., check=...)\<close> of the standard library.
  Without \<^verbatim>\<open>capture_output\<close> the child inherits the streams of the script: its standard output
  reaches the standard output of the script and the attributes of the result are \<^verbatim>\<open>None\<close>.
  With it, the streams are collected; in text mode they are decoded in the locale's encoding
  and their newlines translated, in binary mode they are handed over as bytes. With
  \<^verbatim>\<open>check\<close>, a non-zero status raises \<^verbatim>\<open>CalledProcessError\<close>.
\<close>

definition subprocess_run ::
  "os \<Rightarrow> string list \<Rightarrow> bool \<Rightarrow> bool \<Rightarrow> bool \<Rightarrow> world \<Rightarrow> (exn + CompletedProcess) \<times> world" where
  "subprocess_run env argv capture_output text check w =
     (let w1 = w\<lparr>spawned := spawned w @ [argv]\<rparr> in
      case execute env argv of
        None \<Rightarrow> (Inl OSError, w1)
      | Some c \<Rightarrow>
          (let w2 = (if capture_output then w1 else w1\<lparr>printed := printed w1 @ child_stdout c\<rparr>);
               streams =
                 (if \<not> capture_output then Inr (PyNone, PyNone)
                  else if \<not> text then Inr (PyBytes (child_stdout c), PyBytes (child_stderr c))
                  else (case translate_newlines (decode env) (child_stdout c) of
                          Inl e \<Rightarrow> Inl e
                        | Inr out \<Rightarrow>
                            (case translate_newlines (decode env) (child_stderr c) of
                               Inl e \<Rightarrow> Inl e
                             | Inr err \<Rightarrow> Inr (PyStr out, PyStr err))))
           in case streams of
                Inl e \<Rightarrow> (Inl e, w2)
              | Inr (out, err) \<Rightarrow>
                  if check \<and> child_status c \<noteq> 0
                  then (Inl (CalledProcessError (child_status c)), w2)
                  else (Inr \<lparr>returncode = child_status c, stdout = out, stderr = err\<rparr>, w2)))"

subsection \<open>The script\<close>

text \<open>\<^verbatim>\<open>def colored_print(message, color): print(f"{color}{message}{Colors.RESET}")\<close>\<close>

definition colored_print :: "string \<Rightarrow> Colors \<Rightarrow> world \<Rightarrow> world" where
  "colored_print message color w =
     print_py (color_value color @ message @ color_value RESET) w"

text \<open>
  \<^verbatim>\<open>def check_openssl_dependency()\<close>: the call with \<^verbatim>\<open>capture_output=True, text=True\<close> and
  \<^verbatim>\<open>check\<close> left at its default \<^verbatim>\<open>False\<close>, then the three branches in the order of the
  source. No exception is caught: one raised by the call or by \<^verbatim>\<open>in\<close> leaves the function.
  A \<^verbatim>\<open>sys.exit(1)\<close> is the result \<open>Inl (SystemExit 1)\<close>, falling off the end is \<open>Inr ()\<close>.
\<close>

definition check_openssl_dependency :: "os \<Rightarrow> world \<Rightarrow> (exn + unit) \<times> world" where
  "check_openssl_dependency env w =
     (case subprocess_run env [''cargo'', ''tree'', ''-i'', ''openssl'', ''--workspace'']
             True True False w of
        (Inl e, w1) \<Rightarrow> (Inl e, w1)
      | (Inr result, w1) \<Rightarrow>
          if returncode result = 0 then
            (let w2 = colored_print ''Error: openssl is part of the dependencies tree'' RED w1;
                 w3 = print_py (py_str (stdout result)) w2
             in (Inl (SystemExit 1), w3))
          else
            (case py_in ''package ID specification `openssl` did not match any packages''
                    (stderr result) of
               Inl e \<Rightarrow> (Inl e, w1)
             | Inr found \<Rightarrow>
                 if found then
                   (Inr (), colored_print ''Success: openssl is not part of the dependencies tree.''
                              GREEN w1)
                 else
                   (let w2 = colored_print ''Error: Unexpected error message.'' RED w1;
                        w3 = print_py (py_str (stderr result)) w2
                    in (Inl (SystemExit 1), w3))))"

text \<open>
  The exit code of the interpreter: 0 when the program ends normally, the argument of an
  uncaught \<^verbatim>\<open>SystemExit\<close>, and 1 for any other uncaught exception.
\<close>

fun exit_status :: "exn + unit \<Rightarrow> int" where
  "exit_status (Inr ()) = 0"
| "exit_status (Inl (SystemExit n)) = n"
| "exit_status (Inl (CalledProcessError n)) = 1"
| "exit_status (Inl OSError) = 1"
| "exit_status (Inl UnicodeDecodeError) = 1"
| "exit_status (Inl TypeError) = 1"

text \<open>
  \<^verbatim>\<open>if __name__ == "__main__": check_openssl_dependency()\<close>: one run of the script in a fresh
  process, giving its exit code and what it did.
\<close>

definition script :: "os \<Rightarrow> int \<times> world" where
  "script env =
     (case check_openssl_dependency env \<lparr>spawned = [], printed = []\<rparr> of
        (r, w) \<Rightarrow> (exit_status r, w))"

subsection \<open>The three outcomes\<close>

text \<open>
  The outcomes of the specification's data model. A run shows an outcome when its exit code
  and its output are those of the outcome: the red line about the dependency being present,
  the standard output of the command and a non-zero exit code for \<open>Forbidden\<close>; the green
  line and exit code 0 for \<open>Absent\<close>; the red line about an unexpected error, the standard
  error of the command and a non-zero exit code for \<open>UnexpectedError\<close>.
\<close>

datatype Outcome = Forbidden | Absent | UnexpectedError

fun exhibits :: "Outcome \<Rightarrow> CompletedProcess \<Rightarrow> int \<times> world \<Rightarrow> bool" where
  "exhibits Forbidden result (code, w) =
     (code \<noteq> 0 \<and>
      printed w = color_value RED @ ''Error: openssl is part of the dependencies tree''
                  @ color_value RESET @ [CHR 0x0A] @ py_str (stdout result) @ [CHR 0x0A])"
| "exhibits Absent result (code, w) =
     (code = 0 \<and>
      printed w = color_value GREEN @ ''Success: openssl is not part of the dependencies tree.''
                  @ color_value RESET @ [CHR 0x0A])"
| "exhibits UnexpectedError result (code, w) =
     (code \<noteq> 0 \<and>
      printed w = color_value RED @ ''Error: Unexpected error message.''
                  @ color_value RESET @ [CHR 0x0A] @ py_str (stderr result) @ [CHR 0x0A])"

subsection \<open>A concrete locale: strict UTF-8\<close>

text \<open>
  The well-formed UTF-8 byte sequences (no overlong forms, no surrogates, nothing above
  U+10FFFF), which are the ones Python's strict \<^verbatim>\<open>utf-8\<close> codec accepts. As text is held in
  its UTF-8 encoding, decoding well-formed bytes gives them back.
\<close>

definition byte_in :: "nat \<Rightarrow> nat \<Rightarrow> char \<Rightarrow> bool" where
  "byte_in lo hi c = (lo \<le> (of_char c :: nat) \<and> (of_char c :: nat) \<le> hi)"

fun utf8_wellformed :: "char list \<Rightarrow> bool" where
  "utf8_wellformed [] = True"
| "utf8_wellformed (a # bs) =
     (if byte_in 0x00 0x7F a then utf8_wellformed bs
      else if byte_in 0xC2 0xDF a then
        1 \<le> length bs \<and> byte_in 0x80 0xBF (bs ! 0) \<and> utf8_wellformed (drop 1 bs)
      else if byte_in 0xE0 0xEF a then
        2 \<le> length bs
        \<and> byte_in (if a = CHR 0xE0 then 0xA0 else 0x80) (if a = CHR 0xED then 0x9F else 0xBF) (bs ! 0)
        \<and> byte_in 0x80 0xBF (bs ! 1) \<and> utf8_wellformed (drop 2 bs)
      else if byte_in 0xF0 0xF4 a then
        3 \<le> length bs
        \<and> byte_in (if a = CHR 0xF0 then 0x90 else 0x80) (if a = CHR 0xF4 then 0x8F else 0xBF) (bs ! 0)
        \<and> byte_in 0x80 0xBF (bs ! 1) \<and> byte_in 0x80 0xBF (bs ! 2) \<and> utf8_wellformed (drop 3 bs)
      else False)"

definition utf8_strict :: "char list \<Rightarrow> string option" where
  "utf8_strict data = (if utf8_wellformed data then Some data else None)"

text \<open>
  An environment with a UTF-8 locale in which the command of the script is the only one
  that can be started, and one in which every command behaves the same.
\<close>

definition only_cargo :: "child \<Rightarrow> os" where
  "only_cargo c =
     \<lparr>execute = (\<lambda>argv. if argv = [''cargo'', ''tree'', ''-i'', ''openssl'', ''--workspace'']
                        then Some c else None),
      decode = utf8_strict\<rparr>"

definition any_command :: "child \<Rightarrow> os" where
  "any_command c = \<lparr>execute = (\<lambda>argv. Some c), decode = utf8_strict\<rparr>"

text \<open>The scenarios of the specification, as runs of the command.\<close>

definition scenario_A :: child where
  "scenario_A = \<lparr>child_status = 0, child_stdout = ''openssl v0.10.0'', child_stderr = ''''\<rparr>"

definition scenario_B :: child where
  "scenario_B = \<lparr>child_status = 1, child_stdout = '''',
     child_stderr = ''error: package ID specification `openssl` did not match any packages''\<rparr>"

definition scenario_C :: child where
  "scenario_C = \<lparr>child_status = 127, child_stdout = '''', child_stderr = ''command not found''\<rparr>"

text \<open>
  Further runs of the command: one killed by signal 9; one whose standard error holds the
  expected message between other lines; and three whose output has a byte that is not
  UTF-8 (0xFF on standard output with status 0 and with status 101, 0xE9 on standard error).
\<close>

definition killed_by_signal :: child where
  "killed_by_signal = \<lparr>child_status = - 9, child_stdout = ''partial'', child_stderr = ''''\<rparr>"

definition scenario_B_noisy :: child where
  "scenario_B_noisy = \<lparr>child_status = 101, child_stdout = ''some output'',
     child_stderr = ''warning: unused manifest key'' @ [CHR 0x0A]
       @ ''error: package ID specification `openssl` did not match any packages'' @ [CHR 0x0A]\<rparr>"

definition present_bad_stdout :: child where
  "present_bad_stdout = \<lparr>child_status = 0, child_stdout = [CHR 0xFF], child_stderr = ''''\<rparr>"

definition absent_bad_stdout :: child where
  "absent_bad_stdout = \<lparr>child_status = 101, child_stdout = [CHR 0xFF],
     child_stderr = ''error: package ID specification `openssl` did not match any packages''\<rparr>"

definition absent_no_stdout :: child where
  "absent_no_stdout = \<lparr>child_status = 101, child_stdout = '''',
     child_stderr = ''error: package ID specification `openssl` did not match any packages''\<rparr>"

definition failed_bad_stderr :: child where
  "failed_bad_stderr = \<lparr>child_status = 1, child_stdout = '''',
     child_stderr = ''error: caf'' @ [CHR 0xE9]\<rparr>"

text \<open>A second run of the command with status 0, printing another version.\<close>

definition scenario_A_newer :: child where
  "scenario_A_newer = \<lparr>child_status = 0, child_stdout = ''openssl v3.0.0'', child_stderr = ''''\<rparr>"

subsection \<open>The call, as the script makes it\<close>

text \<open>
  The call of the script, by what the environment does: the command cannot be started, its
  output does not decode, or a result with two \<^verbatim>\<open>str\<close> attributes comes back. Then the same
  call without capturing, and with \<^verbatim>\<open>check=True\<close>.
\<close>

lemma run_text_mode:
  "subprocess_run env argv True True False w =
     (case execute env argv of
        None \<Rightarrow> (Inl OSError, w\<lparr>spawned := spawned w @ [argv]\<rparr>)
      | Some c \<Rightarrow>
          (case decode env (child_stdout c) of
             None \<Rightarrow> (Inl UnicodeDecodeError, w\<lparr>spawned := spawned w @ [argv]\<rparr>)
           | Some out \<Rightarrow>
               (case decode env (child_stderr c) of
                  None \<Rightarrow> (Inl UnicodeDecodeError, w\<lparr>spawned := spawned w @ [argv]\<rparr>)
                | Some err \<Rightarrow>
                    (Inr \<lparr>returncode = child_status c, stdout = PyStr (universal_newlines out),
                          stderr = PyStr (universal_newlines err)\<rparr>,
                     w\<lparr>spawned := spawned w @ [argv]\<rparr>))))"
  by (simp add: subprocess_run_def translate_newlines_def Let_def split: option.split)

lemma returned_text:
  assumes "fst (subprocess_run env argv True True False w) = Inr result"
  obtains c out err where "execute env argv = Some c"
    and "decode env (child_stdout c) = Some out"
    and "decode env (child_stderr c) = Some err"
    and "result = \<lparr>returncode = child_status c, stdout = PyStr (universal_newlines out),
                    stderr = PyStr (universal_newlines err)\<rparr>"
  using assms by (auto simp add: run_text_mode split: option.splits)

lemma run_without_capture:
  assumes "execute env argv = Some c"
  shows "subprocess_run env argv False text False w =
    (Inr \<lparr>returncode = child_status c, stdout = PyNone, stderr = PyNone\<rparr>,
     w\<lparr>spawned := spawned w @ [argv], printed := printed w @ child_stdout c\<rparr>)"
  using assms by (simp add: subprocess_run_def)

lemma run_checked:
  assumes "execute env argv = Some c" and "child_status c \<noteq> 0"
    and "decode env (child_stdout c) = Some out" and "decode env (child_stderr c) = Some err"
  shows "fst (subprocess_run env argv True True True w) = Inl (CalledProcessError (child_status c))"
  using assms by (simp add: subprocess_run_def translate_newlines_def)

subsection \<open>The run, branch by branch\<close>

text \<open>
  The whole run when the output of the command decodes, when it does not, and in terms of
  the result the call has returned.
\<close>

lemma check_decoded:
  assumes "execute env [''cargo'', ''tree'', ''-i'', ''openssl'', ''--workspace''] = Some c"
    and "decode env (child_stdout c) = Some out"
    and "decode env (child_stderr c) = Some err"
  shows "check_openssl_dependency env w =
    (if child_status c = 0 then
       (Inl (SystemExit 1),
        \<lparr>spawned = spawned w @ [[''cargo'', ''tree'', ''-i'', ''openssl'', ''--workspace'']],
         printed = printed w
           @ CHR 0x1B # ''[91mError: openssl is part of the dependencies tree''
           @ CHR 0x1B # ''[0m'' @ [CHR 0x0A] @ universal_newlines out @ [CHR 0x0A]\<rparr>)
     else if sublist ''package ID specification `openssl` did not match any packages''
               (universal_newlines err) then
       (Inr (),
        \<lparr>spawned = spawned w @ [[''cargo'', ''tree'', ''-i'', ''openssl'', ''--workspace'']],
         printed = printed w
           @ CHR 0x1B # ''[92mSuccess: openssl is not part of the dependencies tree.''
           @ CHR 0x1B # ''[0m'' @ [CHR 0x0A]\<rparr>)
     else
       (Inl (SystemExit 1),
        \<lparr>spawned = spawned w @ [[''cargo'', ''tree'', ''-i'', ''openssl'', ''--workspace'']],
         printed = printed w
           @ CHR 0x1B # ''[91mError: Unexpected error message.''
           @ CHR 0x1B # ''[0m'' @ [CHR 0x0A] @ universal_newlines err @ [CHR 0x0A]\<rparr>))"
  using assms
  by (simp add: check_openssl_dependency_def run_text_mode colored_print_def print_py_def)

lemma script_decoded:
  assumes "execute env [''cargo'', ''tree'', ''-i'', ''openssl'', ''--workspace''] = Some c"
    and "decode env (child_stdout c) = Some out"
    and "decode env (child_stderr c) = Some err"
  shows "script env =
    (if child_status c = 0 then
       (1, \<lparr>spawned = [[''cargo'', ''tree'', ''-i'', ''openssl'', ''--workspace'']],
            printed = CHR 0x1B # ''[91mError: openssl is part of the dependencies tree''
              @ CHR 0x1B # ''[0m'' @ [CHR 0x0A] @ universal_newlines out @ [CHR 0x0A]\<rparr>)
     else if sublist ''package ID specification `openssl` did not match any packages''
               (universal_newlines err) then
       (0, \<lparr>spawned = [[''cargo'', ''tree'', ''-i'', ''openssl'', ''--workspace'']],
            printed = CHR 0x1B # ''[92mSuccess: openssl is not part of the dependencies tree.''
              @ CHR 0x1B # ''[0m'' @ [CHR 0x0A]\<rparr>)
     else
       (1, \<lparr>spawned = [[''cargo'', ''tree'', ''-i'', ''openssl'', ''--workspace'']],
            printed = CHR 0x1B # ''[91mError: Unexpected error message.''
              @ CHR 0x1B # ''[0m'' @ [CHR 0x0A] @ universal_newlines err @ [CHR 0x0A]\<rparr>))"
  using assms
  by (simp add: script_def check_decoded [of env c out err])

lemma script_undecodable:
  assumes "execute env [''cargo'', ''tree'', ''-i'', ''openssl'', ''--workspace''] = Some c"
    and "decode env (child_stdout c) = None \<or> decode env (child_stderr c) = None"
  shows "script env =
    (1, \<lparr>spawned = [[''cargo'', ''tree'', ''-i'', ''openssl'', ''--workspace'']], printed = []\<rparr>)"
  using assms
  by (auto simp add: script_def check_openssl_dependency_def run_text_mode split: option.splits)

lemma script_returned:
  assumes "fst (subprocess_run env [''cargo'', ''tree'', ''-i'', ''openssl'', ''--workspace'']
                  True True False \<lparr>spawned = [], printed = []\<rparr>) = Inr result"
  shows "script env =
    (if returncode result = 0 then
       (1, \<lparr>spawned = [[''cargo'', ''tree'', ''-i'', ''openssl'', ''--workspace'']],
            printed = CHR 0x1B # ''[91mError: openssl is part of the dependencies tree''
              @ CHR 0x1B # ''[0m'' @ [CHR 0x0A] @ py_str (stdout result) @ [CHR 0x0A]\<rparr>)
     else if sublist ''package ID specification `openssl` did not match any packages''
               (py_str (stderr result)) then
       (0, \<lparr>spawned = [[''cargo'', ''tree'', ''-i'', ''openssl'', ''--workspace'']],
            printed = CHR 0x1B # ''[92mSuccess: openssl is not part of the dependencies tree.''
              @ CHR 0x1B # ''[0m'' @ [CHR 0x0A]\<rparr>)
     else
       (1, \<lparr>spawned = [[''cargo'', ''tree'', ''-i'', ''openssl'', ''--workspace'']],
            printed = CHR 0x1B # ''[91mError: Unexpected error message.''
              @ CHR 0x1B # ''[0m'' @ [CHR 0x0A] @ py_str (stderr result) @ [CHR 0x0A]\<rparr>))"
proof -
  from assms obtain c out err
    where started: "execute env [''cargo'', ''tree'', ''-i'', ''openssl'', ''--workspace''] = Some c"
      and out: "decode env (child_stdout c) = Some out"
      and err: "decode env (child_stderr c) = Some err"
      and result: "result = \<lparr>returncode = child_status c, stdout = PyStr (universal_newlines out),
                    stderr = PyStr (universal_newlines err)\<rparr>"
    by (rule returned_text)
  show ?thesis
    by (simp add: script_decoded [OF started out err] result)
qed

subsection \<open>The example runs\<close>

text \<open>
  What the example environments yield, which of the example outputs decode as UTF-8, and the
  substring test on the example texts.
\<close>

lemma only_cargo_execute:
  "execute (only_cargo c) [''cargo'', ''tree'', ''-i'', ''openssl'', ''--workspace''] = Some c"
  by (simp add: only_cargo_def)

lemma only_cargo_decode: "decode (only_cargo c) = utf8_strict"
  by (simp add: only_cargo_def)

lemma returned_by_only_cargo:
  assumes "utf8_strict (child_stdout c) = Some out" and "utf8_strict (child_stderr c) = Some err"
  shows "fst (subprocess_run (only_cargo c) [''cargo'', ''tree'', ''-i'', ''openssl'', ''--workspace'']
                True True False \<lparr>spawned = [], printed = []\<rparr>)
         = Inr \<lparr>returncode = child_status c, stdout = PyStr (universal_newlines out),
                stderr = PyStr (universal_newlines err)\<rparr>"
  using assms by (simp add: run_text_mode only_cargo_def)

lemma returned_by_any_command:
  assumes "utf8_strict (child_stdout c) = Some out" and "utf8_strict (child_stderr c) = Some err"
  shows "fst (subprocess_run (any_command c) argv True True False \<lparr>spawned = [], printed = []\<rparr>)
         = Inr \<lparr>returncode = child_status c, stdout = PyStr (universal_newlines out),
                stderr = PyStr (universal_newlines err)\<rparr>"
  using assms by (simp add: run_text_mode any_command_def)

lemma scenario_A_text:
  "utf8_strict (child_stdout scenario_A) = Some ''openssl v0.10.0''"
  "utf8_strict (child_stderr scenario_A) = Some ''''"
  by (simp_all add: scenario_A_def utf8_strict_def byte_in_def)

lemma scenario_A_newer_text:
  "utf8_strict (child_stdout scenario_A_newer) = Some ''openssl v3.0.0''"
  "utf8_strict (child_stderr scenario_A_newer) = Some ''''"
  by (simp_all add: scenario_A_newer_def utf8_strict_def byte_in_def)

lemma scenario_B_text:
  "utf8_strict (child_stdout scenario_B) = Some ''''"
  "utf8_strict (child_stderr scenario_B) =
     Some ''error: package ID specification `openssl` did not match any packages''"
  by (simp_all add: scenario_B_def utf8_strict_def byte_in_def)

lemma scenario_C_text:
  "utf8_strict (child_stdout scenario_C) = Some ''''"
  "utf8_strict (child_stderr scenario_C) = Some ''command not found''"
  by (simp_all add: scenario_C_def utf8_strict_def byte_in_def)

lemma killed_by_signal_text:
  "utf8_strict (child_stdout killed_by_signal) = Some ''partial''"
  "utf8_strict (child_stderr killed_by_signal) = Some ''''"
  by (simp_all add: killed_by_signal_def utf8_strict_def byte_in_def)

lemma scenario_B_noisy_text:
  "utf8_strict (child_stdout scenario_B_noisy) = Some ''some output''"
  "utf8_strict (child_stderr scenario_B_noisy) =
     Some (''warning: unused manifest key'' @ [CHR 0x0A]
       @ ''error: package ID specification `openssl` did not match any packages'' @ [CHR 0x0A])"
  by (simp_all add: scenario_B_noisy_def utf8_strict_def byte_in_def)

lemma absent_no_stdout_text:
  "utf8_strict (child_stdout absent_no_stdout) = Some ''''"
  "utf8_strict (child_stderr absent_no_stdout) =
     Some ''error: package ID specification `openssl` did not match any packages''"
  by (simp_all add: absent_no_stdout_def utf8_strict_def byte_in_def)

lemma bad_bytes:
  "utf8_strict (child_stdout present_bad_stdout) = None"
  "utf8_strict (child_stdout absent_bad_stdout) = None"
  "utf8_strict (child_stderr failed_bad_stderr) = None"
  by (simp_all add: present_bad_stdout_def absent_bad_stdout_def failed_bad_stderr_def
      utf8_strict_def byte_in_def)

lemma message_after_prefix:
  "sublist ''package ID specification `openssl` did not match any packages''
     (''error: package ID specification `openssl` did not match any packages'')"
proof -
  have "''error: package ID specification `openssl` did not match any packages'' =
      ''error: '' @ ''package ID specification `openssl` did not match any packages''"
    by simp
  then show ?thesis
    by (simp only: sublist_append_leftI)
qed

lemma message_between_lines:
  "sublist ''package ID specification `openssl` did not match any packages''
     (''warning: unused manifest key'' @ [CHR 0x0A]
       @ ''error: package ID specification `openssl` did not match any packages'' @ [CHR 0x0A])"
proof -
  have "''warning: unused manifest key'' @ [CHR 0x0A]
       @ ''error: package ID specification `openssl` did not match any packages'' @ [CHR 0x0A] =
      (''warning: unused manifest key'' @ [CHR 0x0A] @ ''error: '')
      @ ''package ID specification `openssl` did not match any packages'' @ [CHR 0x0A]"
    by simp
  then show ?thesis
    by (simp only: sublist_appendI)
qed

lemma message_not_in_command_not_found:
  "\<not> sublist ''package ID specification `openssl` did not match any packages'' ''command not found''"
  by (simp add: sublist_code)

lemma message_newlines:
  "universal_newlines ''error: package ID specification `openssl` did not match any packages''
   = ''error: package ID specification `openssl` did not match any packages''"
  by simp

section \<open>Properties of the script\<close>

subsection \<open>Verdict: dependency present\<close>

text \<open>
  Claim C1. Whenever the command exits with status 0, the script prints the red line
  \<^verbatim>\<open>Error: openssl is part of the dependencies tree\<close>, then the captured standard output of
  the command, and the process ends with exit code 1.

  As stated this fails: with status 0 and the byte 0xFF on standard output in a UTF-8 locale,
  the call raises \<^verbatim>\<open>UnicodeDecodeError\<close>, nothing is printed and the exit code is 1.
\<close>

theorem forbidden_when_status_zero_refuted:
  "execute (only_cargo present_bad_stdout) [''cargo'', ''tree'', ''-i'', ''openssl'', ''--workspace'']
     = Some present_bad_stdout
   \<and> child_status present_bad_stdout = 0
   \<and> child_stdout present_bad_stdout = [CHR 0xFF]
   \<and> decode (only_cargo present_bad_stdout) [CHR 0xFF] = None
   \<and> script (only_cargo present_bad_stdout) =
       (1, \<lparr>spawned = [[''cargo'', ''tree'', ''-i'', ''openssl'', ''--workspace'']], printed = []\<rparr>)"
proof -
  have fields: "child_status present_bad_stdout = 0" "child_stdout present_bad_stdout = [CHR 0xFF]"
    by (simp_all add: present_bad_stdout_def)
  have undecodable: "decode (only_cargo present_bad_stdout) (child_stdout present_bad_stdout) = None"
    by (simp add: only_cargo_decode bad_bytes)
  have "script (only_cargo present_bad_stdout) =
      (1, \<lparr>spawned = [[''cargo'', ''tree'', ''-i'', ''openssl'', ''--workspace'']], printed = []\<rparr>)"
    using only_cargo_execute undecodable by (rule script_undecodable [OF _ disjI1])
  with only_cargo_execute fields undecodable show ?thesis
    by simp
qed

text \<open>
  Claim C1, amended. Whenever the command exits with status 0 and both captured streams
  decode in the locale's encoding, the script prints the red line, then the decoded standard
  output with its newlines translated, and the process ends with exit code 1.
\<close>

theorem forbidden_when_status_zero:
  assumes "execute env [''cargo'', ''tree'', ''-i'', ''openssl'', ''--workspace''] = Some c"
    and "child_status c = 0"
    and "decode env (child_stdout c) = Some out"
    and "decode env (child_stderr c) = Some err"
  shows "printed (snd (script env)) =
           CHR 0x1B # ''[91mError: openssl is part of the dependencies tree'' @ CHR 0x1B # ''[0m''
           @ [CHR 0x0A] @ universal_newlines out @ [CHR 0x0A]
         \<and> fst (script env) = 1"
  using assms script_decoded [of env c out err] by simp

text \<open>The same at a concrete run of the command.\<close>

theorem forbidden_when_status_zero_witness:
  "execute (only_cargo scenario_A) [''cargo'', ''tree'', ''-i'', ''openssl'', ''--workspace'']
     = Some scenario_A
   \<and> child_status scenario_A = 0
   \<and> decode (only_cargo scenario_A) (child_stdout scenario_A) = Some ''openssl v0.10.0''
   \<and> decode (only_cargo scenario_A) (child_stderr scenario_A) = Some ''''
   \<and> printed (snd (script (only_cargo scenario_A))) =
       CHR 0x1B # ''[91mError: openssl is part of the dependencies tree'' @ CHR 0x1B # ''[0m''
       @ [CHR 0x0A] @ ''openssl v0.10.0'' @ [CHR 0x0A]
   \<and> fst (script (only_cargo scenario_A)) = 1"
proof -
  have rc: "child_status scenario_A = 0"
    by (simp add: scenario_A_def)
  from forbidden_when_status_zero [of "only_cargo scenario_A" scenario_A "''openssl v0.10.0''" "''''"]
    rc only_cargo_execute [of scenario_A] scenario_A_text
  show ?thesis by (simp add: only_cargo_decode)
qed

subsection \<open>Verdict: dependency absent\<close>

text \<open>
  Claim C2. Whenever the command exits with a non-zero status and its captured standard error
  contains \<^verbatim>\<open>package ID specification `openssl` did not match any packages\<close>, the script
  prints the green success line and the process ends with exit code 0.

  As stated this fails: with status 101, that text on standard error and the byte 0xFF on
  standard output in a UTF-8 locale, nothing is printed and the exit code is 1.
\<close>

theorem absent_when_no_match_refuted:
  "execute (only_cargo absent_bad_stdout) [''cargo'', ''tree'', ''-i'', ''openssl'', ''--workspace'']
     = Some absent_bad_stdout
   \<and> child_status absent_bad_stdout = 101
   \<and> child_stdout absent_bad_stdout = [CHR 0xFF]
   \<and> sublist ''package ID specification `openssl` did not match any packages''
        (child_stderr absent_bad_stdout)
   \<and> decode (only_cargo absent_bad_stdout) [CHR 0xFF] = None
   \<and> printed (snd (script (only_cargo absent_bad_stdout))) = []
   \<and> fst (script (only_cargo absent_bad_stdout)) = 1"
proof -
  have fields: "child_status absent_bad_stdout = 101" "child_stdout absent_bad_stdout = [CHR 0xFF]"
    "child_stderr absent_bad_stdout =
       ''error: package ID specification `openssl` did not match any packages''"
    by (simp_all add: absent_bad_stdout_def)
  have undecodable: "decode (only_cargo absent_bad_stdout) (child_stdout absent_bad_stdout) = None"
    by (simp add: only_cargo_decode bad_bytes)
  have "script (only_cargo absent_bad_stdout) =
      (1, \<lparr>spawned = [[''cargo'', ''tree'', ''-i'', ''openssl'', ''--workspace'']], printed = []\<rparr>)"
    using only_cargo_execute undecodable by (rule script_undecodable [OF _ disjI1])
  with only_cargo_execute [of absent_bad_stdout] fields undecodable message_after_prefix
  show ?thesis by simp
qed

text \<open>
  Claim C2, amended. Whenever the command exits with a non-zero status, both captured streams
  decode in the locale's encoding and the decoded standard error contains the text, the
  script prints the green success line and the process ends with exit code 0.
\<close>

theorem absent_when_no_match:
  assumes "execute env [''cargo'', ''tree'', ''-i'', ''openssl'', ''--workspace''] = Some c"
    and "child_status c \<noteq> 0"
    and "decode env (child_stdout c) = Some out"
    and "decode env (child_stderr c) = Some err"
    and "sublist ''package ID specification `openssl` did not match any packages''
           (universal_newlines err)"
  shows "printed (snd (script env)) =
           CHR 0x1B # ''[92mSuccess: openssl is not part of the dependencies tree.''
           @ CHR 0x1B # ''[0m'' @ [CHR 0x0A]
         \<and> fst (script env) = 0"
  using assms script_decoded [of env c out err] by simp

text \<open>The same at a concrete run of the command.\<close>

theorem absent_when_no_match_witness:
  "execute (only_cargo scenario_B) [''cargo'', ''tree'', ''-i'', ''openssl'', ''--workspace'']
     = Some scenario_B
   \<and> child_status scenario_B \<noteq> 0
   \<and> decode (only_cargo scenario_B) (child_stdout scenario_B) = Some ''''
   \<and> decode (only_cargo scenario_B) (child_stderr scenario_B) =
       Some ''error: package ID specification `openssl` did not match any packages''
   \<and> sublist ''package ID specification `openssl` did not match any packages''
        (universal_newlines ''error: package ID specification `openssl` did not match any packages'')
   \<and> printed (snd (script (only_cargo scenario_B))) =
       CHR 0x1B # ''[92mSuccess: openssl is not part of the dependencies tree.''
       @ CHR 0x1B # ''[0m'' @ [CHR 0x0A]
   \<and> fst (script (only_cargo scenario_B)) = 0"
proof -
  have rc: "child_status scenario_B \<noteq> 0"
    by (simp add: scenario_B_def)
  have found: "sublist ''package ID specification `openssl` did not match any packages''
        (universal_newlines ''error: package ID specification `openssl` did not match any packages'')"
    by (simp only: message_newlines message_after_prefix)
  have decoded: "decode (only_cargo scenario_B) (child_stdout scenario_B) = Some ''''"
    "decode (only_cargo scenario_B) (child_stderr scenario_B) =
       Some ''error: package ID specification `openssl` did not match any packages''"
    by (simp_all only: only_cargo_decode scenario_B_text)
  from absent_when_no_match [of "only_cargo scenario_B" scenario_B "''''"
      "''error: package ID specification `openssl` did not match any packages''",
      OF only_cargo_execute rc decoded found]
    only_cargo_execute [of scenario_B] rc decoded found
  show ?thesis by (simp only: simp_thms)
qed

subsection \<open>Verdict: unexpected error\<close>

text \<open>
  Claim C3. Whenever the command exits with a non-zero status and its captured standard error
  does not contain that text, the script prints the red line
  \<^verbatim>\<open>Error: Unexpected error message.\<close>, then the raw standard error, and the process ends
  with exit code 1.

  As stated this fails: with status 1 and a standard error ending in the byte 0xE9 in a
  UTF-8 locale, the call raises \<^verbatim>\<open>UnicodeDecodeError\<close> and nothing is printed.
\<close>

theorem unexpected_error_otherwise_refuted:
  "execute (only_cargo failed_bad_stderr) [''cargo'', ''tree'', ''-i'', ''openssl'', ''--workspace'']
     = Some failed_bad_stderr
   \<and> child_status failed_bad_stderr = 1
   \<and> child_stderr failed_bad_stderr = ''error: caf'' @ [CHR 0xE9]
   \<and> \<not> sublist ''package ID specification `openssl` did not match any packages''
          (child_stderr failed_bad_stderr)
   \<and> decode (only_cargo failed_bad_stderr) (''error: caf'' @ [CHR 0xE9]) = None
   \<and> printed (snd (script (only_cargo failed_bad_stderr))) = []"
proof -
  have fields: "child_status failed_bad_stderr = 1"
    "child_stderr failed_bad_stderr = ''error: caf'' @ [CHR 0xE9]"
    by (simp_all add: failed_bad_stderr_def)
  have absent: "\<not> sublist ''package ID specification `openssl` did not match any packages''
          (child_stderr failed_bad_stderr)"
    by (simp add: failed_bad_stderr_def sublist_code)
  have undecodable: "decode (only_cargo failed_bad_stderr) (child_stderr failed_bad_stderr) = None"
    by (simp add: only_cargo_decode bad_bytes)
  have "script (only_cargo failed_bad_stderr) =
      (1, \<lparr>spawned = [[''cargo'', ''tree'', ''-i'', ''openssl'', ''--workspace'']], printed = []\<rparr>)"
    using only_cargo_execute undecodable by (rule script_undecodable [OF _ disjI2])
  with only_cargo_execute [of failed_bad_stderr] fields absent undecodable
  show ?thesis by simp
qed

text \<open>
  Claim C3, amended. Whenever the command exits with a non-zero status, both captured streams
  decode in the locale's encoding and the decoded standard error does not contain the text,
  the script prints the red line, then the decoded standard error with its newlines
  translated, and the process ends with exit code 1.
\<close>

theorem unexpected_error_otherwise:
  assumes "execute env [''cargo'', ''tree'', ''-i'', ''openssl'', ''--workspace''] = Some c"
    and "child_status c \<noteq> 0"
    and "decode env (child_stdout c) = Some out"
    and "decode env (child_stderr c) = Some err"
    and "\<not> sublist ''package ID specification `openssl` did not match any packages''
             (universal_newlines err)"
  shows "printed (snd (script env)) =
           CHR 0x1B # ''[91mError: Unexpected error message.'' @ CHR 0x1B # ''[0m''
           @ [CHR 0x0A] @ universal_newlines err @ [CHR 0x0A]
         \<and> fst (script env) = 1"
  using assms script_decoded [of env c out err] by simp

text \<open>The same at a concrete run of the command.\<close>

theorem unexpected_error_otherwise_witness:
  "execute (only_cargo scenario_C) [''cargo'', ''tree'', ''-i'', ''openssl'', ''--workspace'']
     = Some scenario_C
   \<and> child_status scenario_C \<noteq> 0
   \<and> decode (only_cargo scenario_C) (child_stdout scenario_C) = Some ''''
   \<and> decode (only_cargo scenario_C) (child_stderr scenario_C) = Some ''command not found''
   \<and> \<not> sublist ''package ID specification `openssl` did not match any packages''
          (universal_newlines ''command not found'')
   \<and> printed (snd (script (only_cargo scenario_C))) =
       CHR 0x1B # ''[91mError: Unexpected error message.'' @ CHR 0x1B # ''[0m''
       @ [CHR 0x0A] @ ''command not found'' @ [CHR 0x0A]
   \<and> fst (script (only_cargo scenario_C)) = 1"
proof -
  have rc: "child_status scenario_C \<noteq> 0"
    by (simp add: scenario_C_def)
  have same: "universal_newlines ''command not found'' = ''command not found''"
    by simp
  have missing: "\<not> sublist ''package ID specification `openssl` did not match any packages''
          (universal_newlines ''command not found'')"
    by (simp only: same message_not_in_command_not_found not_False_eq_True)
  have decoded: "decode (only_cargo scenario_C) (child_stdout scenario_C) = Some ''''"
    "decode (only_cargo scenario_C) (child_stderr scenario_C) = Some ''command not found''"
    by (simp_all only: only_cargo_decode scenario_C_text)
  from unexpected_error_otherwise [of "only_cargo scenario_C" scenario_C "''''" "''command not found''",
      OF only_cargo_execute rc decoded missing]
    only_cargo_execute [of scenario_C] rc decoded missing same
  show ?thesis by (simp only: simp_thms)
qed

subsection \<open>Exactly one outcome\<close>

text \<open>
  Claim C4. The classification is total and exclusive: for every result (exit status,
  standard output, standard error) returned by the call, the run shows exactly one of the
  outcomes \<open>Forbidden\<close>, \<open>Absent\<close>, \<open>UnexpectedError\<close>: at least one, and never two.
\<close>

theorem outcome_exactly_one:
  assumes "fst (subprocess_run env [''cargo'', ''tree'', ''-i'', ''openssl'', ''--workspace'']
                  True True False \<lparr>spawned = [], printed = []\<rparr>) = Inr result"
  shows "\<exists>!oc. exhibits oc result (script env)"
proof -
  note run = script_returned [OF assms]
  consider (zero) "returncode result = 0"
    | (match) "returncode result \<noteq> 0"
        "sublist ''package ID specification `openssl` did not match any packages''
           (py_str (stderr result))"
    | (other) "returncode result \<noteq> 0"
        "\<not> sublist ''package ID specification `openssl` did not match any packages''
             (py_str (stderr result))"
    by blast
  then show ?thesis
  proof cases
    case zero
    show ?thesis
    proof (rule ex1I [of _ Forbidden])
      show "exhibits Forbidden result (script env)"
        using zero by (simp add: run)
    next
      fix oc
      assume "exhibits oc result (script env)"
      with zero show "oc = Forbidden"
        by (cases oc) (simp_all add: run)
    qed
  next
    case match
    show ?thesis
    proof (rule ex1I [of _ Absent])
      show "exhibits Absent result (script env)"
        using match by (simp add: run)
    next
      fix oc
      assume "exhibits oc result (script env)"
      with match show "oc = Absent"
        by (cases oc) (simp_all add: run)
    qed
  next
    case other
    show ?thesis
    proof (rule ex1I [of _ UnexpectedError])
      show "exhibits UnexpectedError result (script env)"
        using other by (simp add: run)
    next
      fix oc
      assume "exhibits oc result (script env)"
      with other show "oc = UnexpectedError"
        by (cases oc) (simp_all add: run)
    qed
  qed
qed

text \<open>The same at a concrete run of the command.\<close>

theorem outcome_exactly_one_witness:
  "fst (subprocess_run (only_cargo scenario_C) [''cargo'', ''tree'', ''-i'', ''openssl'', ''--workspace'']
          True True False \<lparr>spawned = [], printed = []\<rparr>)
     = Inr \<lparr>returncode = 127, stdout = PyStr '''', stderr = PyStr ''command not found''\<rparr>
   \<and> (\<exists>!oc. exhibits oc \<lparr>returncode = 127, stdout = PyStr '''', stderr = PyStr ''command not found''\<rparr>
              (script (only_cargo scenario_C)))"
proof -
  have returned: "fst (subprocess_run (only_cargo scenario_C)
          [''cargo'', ''tree'', ''-i'', ''openssl'', ''--workspace'']
          True True False \<lparr>spawned = [], printed = []\<rparr>)
     = Inr \<lparr>returncode = 127, stdout = PyStr '''', stderr = PyStr ''command not found''\<rparr>"
    using returned_by_only_cargo [OF scenario_C_text] by (simp add: scenario_C_def)
  from returned outcome_exactly_one [OF returned]
  show ?thesis by (rule conjI)
qed

subsection \<open>Determinism\<close>

text \<open>
  Claim C5. Two runs whose calls return the same result (same exit status, standard output
  and standard error), in environments that may differ in everything else, show the same
  outcome, print the same text and end with the same exit code.
\<close>

theorem script_deterministic:
  assumes "fst (subprocess_run env1 [''cargo'', ''tree'', ''-i'', ''openssl'', ''--workspace'']
                  True True False \<lparr>spawned = [], printed = []\<rparr>) = Inr result"
    and "fst (subprocess_run env2 [''cargo'', ''tree'', ''-i'', ''openssl'', ''--workspace'']
                  True True False \<lparr>spawned = [], printed = []\<rparr>) = Inr result"
  shows "(exhibits oc result (script env1) \<longleftrightarrow> exhibits oc result (script env2))
         \<and> printed (snd (script env1)) = printed (snd (script env2))
         \<and> fst (script env1) = fst (script env2)"
proof -
  have "script env1 = script env2"
    by (simp only: script_returned [OF assms(1)] script_returned [OF assms(2)])
  then show ?thesis by simp
qed

text \<open>The same at a concrete run of the command.\<close>

theorem script_deterministic_witness:
  "fst (subprocess_run (only_cargo scenario_A) [''cargo'', ''tree'', ''-i'', ''openssl'', ''--workspace'']
          True True False \<lparr>spawned = [], printed = []\<rparr>)
     = Inr \<lparr>returncode = 0, stdout = PyStr ''openssl v0.10.0'', stderr = PyStr ''''\<rparr>
   \<and> fst (subprocess_run (any_command scenario_A) [''cargo'', ''tree'', ''-i'', ''openssl'', ''--workspace'']
          True True False \<lparr>spawned = [], printed = []\<rparr>)
     = Inr \<lparr>returncode = 0, stdout = PyStr ''openssl v0.10.0'', stderr = PyStr ''''\<rparr>
   \<and> execute (only_cargo scenario_A) [''ls''] \<noteq> execute (any_command scenario_A) [''ls'']
   \<and> (exhibits Forbidden \<lparr>returncode = 0, stdout = PyStr ''openssl v0.10.0'', stderr = PyStr ''''\<rparr>
          (script (only_cargo scenario_A))
        \<longleftrightarrow> exhibits Forbidden \<lparr>returncode = 0, stdout = PyStr ''openssl v0.10.0'', stderr = PyStr ''''\<rparr>
          (script (any_command scenario_A)))
   \<and> printed (snd (script (only_cargo scenario_A))) = printed (snd (script (any_command scenario_A)))
   \<and> fst (script (only_cargo scenario_A)) = fst (script (any_command scenario_A))"
proof -
  have first: "fst (subprocess_run (only_cargo scenario_A)
          [''cargo'', ''tree'', ''-i'', ''openssl'', ''--workspace'']
          True True False \<lparr>spawned = [], printed = []\<rparr>)
     = Inr \<lparr>returncode = 0, stdout = PyStr ''openssl v0.10.0'', stderr = PyStr ''''\<rparr>"
    using returned_by_only_cargo [OF scenario_A_text] by (simp add: scenario_A_def)
  have second: "fst (subprocess_run (any_command scenario_A)
          [''cargo'', ''tree'', ''-i'', ''openssl'', ''--workspace'']
          True True False \<lparr>spawned = [], printed = []\<rparr>)
     = Inr \<lparr>returncode = 0, stdout = PyStr ''openssl v0.10.0'', stderr = PyStr ''''\<rparr>"
    using returned_by_any_command [OF scenario_A_text] by (simp add: scenario_A_def)
  have differ: "execute (only_cargo scenario_A) [''ls''] \<noteq> execute (any_command scenario_A) [''ls'']"
    by (simp add: only_cargo_def any_command_def)
  from first second differ script_deterministic [OF first second, of Forbidden]
  show ?thesis by (simp only: simp_thms)
qed

subsection \<open>The command that is run\<close>

text \<open>
  Claim C6. The script starts exactly one command, \<^verbatim>\<open>cargo tree -i openssl --workspace\<close>.
  No \<^verbatim>\<open>CalledProcessError\<close> leaves the function, whatever the exit status. The exit status
  and both streams are captured and used by the branches: when the streams decode, the
  function ends by \<^verbatim>\<open>sys.exit(1)\<close> or returns according to the status and the decoded standard
  error, and all that is added to the standard output of the script is the status line and,
  after it, the decoded stream of the branch.
\<close>

theorem invokes_cargo_tree_unchecked:
  "spawned (snd (check_openssl_dependency env w)) =
     spawned w @ [[''cargo'', ''tree'', ''-i'', ''openssl'', ''--workspace'']]
   \<and> fst (check_openssl_dependency env w) \<noteq> Inl (CalledProcessError n)
   \<and> (execute env [''cargo'', ''tree'', ''-i'', ''openssl'', ''--workspace''] = Some c
        \<and> decode env (child_stdout c) = Some out \<and> decode env (child_stderr c) = Some err
      \<longrightarrow> fst (check_openssl_dependency env w) =
            (if child_status c = 0 then Inl (SystemExit 1)
             else if sublist ''package ID specification `openssl` did not match any packages''
                       (universal_newlines err) then Inr ()
             else Inl (SystemExit 1))
          \<and> printed (snd (check_openssl_dependency env w)) =
            printed w @
            (if child_status c = 0 then
               CHR 0x1B # ''[91mError: openssl is part of the dependencies tree''
               @ CHR 0x1B # ''[0m'' @ [CHR 0x0A] @ universal_newlines out @ [CHR 0x0A]
             else if sublist ''package ID specification `openssl` did not match any packages''
                       (universal_newlines err) then
               CHR 0x1B # ''[92mSuccess: openssl is not part of the dependencies tree.''
               @ CHR 0x1B # ''[0m'' @ [CHR 0x0A]
             else
               CHR 0x1B # ''[91mError: Unexpected error message.''
               @ CHR 0x1B # ''[0m'' @ [CHR 0x0A] @ universal_newlines err @ [CHR 0x0A]))"
proof (intro conjI impI)
  show "spawned (snd (check_openssl_dependency env w)) =
     spawned w @ [[''cargo'', ''tree'', ''-i'', ''openssl'', ''--workspace'']]"
    by (simp add: check_openssl_dependency_def run_text_mode colored_print_def print_py_def
        split: option.split)
next
  show "fst (check_openssl_dependency env w) \<noteq> Inl (CalledProcessError n)"
    by (simp add: check_openssl_dependency_def run_text_mode colored_print_def print_py_def
        split: option.split)
next
  assume "execute env [''cargo'', ''tree'', ''-i'', ''openssl'', ''--workspace''] = Some c
        \<and> decode env (child_stdout c) = Some out \<and> decode env (child_stderr c) = Some err"
  then have run: "check_openssl_dependency env w =
    (if child_status c = 0 then
       (Inl (SystemExit 1),
        \<lparr>spawned = spawned w @ [[''cargo'', ''tree'', ''-i'', ''openssl'', ''--workspace'']],
         printed = printed w
           @ CHR 0x1B # ''[91mError: openssl is part of the dependencies tree''
           @ CHR 0x1B # ''[0m'' @ [CHR 0x0A] @ universal_newlines out @ [CHR 0x0A]\<rparr>)
     else if sublist ''package ID specification `openssl` did not match any packages''
               (universal_newlines err) then
       (Inr (),
        \<lparr>spawned = spawned w @ [[''cargo'', ''tree'', ''-i'', ''openssl'', ''--workspace'']],
         printed = printed w
           @ CHR 0x1B # ''[92mSuccess: openssl is not part of the dependencies tree.''
           @ CHR 0x1B # ''[0m'' @ [CHR 0x0A]\<rparr>)
     else
       (Inl (SystemExit 1),
        \<lparr>spawned = spawned w @ [[''cargo'', ''tree'', ''-i'', ''openssl'', ''--workspace'']],
         printed = printed w
           @ CHR 0x1B # ''[91mError: Unexpected error message.''
           @ CHR 0x1B # ''[0m'' @ [CHR 0x0A] @ universal_newlines err @ [CHR 0x0A]\<rparr>))"
    by (simp add: check_decoded [of env c out err])
  show "fst (check_openssl_dependency env w) =
            (if child_status c = 0 then Inl (SystemExit 1)
             else if sublist ''package ID specification `openssl` did not match any packages''
                       (universal_newlines err) then Inr ()
             else Inl (SystemExit 1))"
    by (simp add: run)
  show "printed (snd (check_openssl_dependency env w)) =
            printed w @
            (if child_status c = 0 then
               CHR 0x1B # ''[91mError: openssl is part of the dependencies tree''
               @ CHR 0x1B # ''[0m'' @ [CHR 0x0A] @ universal_newlines out @ [CHR 0x0A]
             else if sublist ''package ID specification `openssl` did not match any packages''
                       (universal_newlines err) then
               CHR 0x1B # ''[92mSuccess: openssl is not part of the dependencies tree.''
               @ CHR 0x1B # ''[0m'' @ [CHR 0x0A]
             else
               CHR 0x1B # ''[91mError: Unexpected error message.''
               @ CHR 0x1B # ''[0m'' @ [CHR 0x0A] @ universal_newlines err @ [CHR 0x0A])"
    by (simp add: run)
qed

text \<open>The same at a concrete run of the command.\<close>

theorem invokes_cargo_tree_unchecked_witness:
  "execute (only_cargo scenario_C) [''cargo'', ''tree'', ''-i'', ''openssl'', ''--workspace'']
     = Some scenario_C
   \<and> decode (only_cargo scenario_C) (child_stdout scenario_C) = Some ''''
   \<and> decode (only_cargo scenario_C) (child_stderr scenario_C) = Some ''command not found''
   \<and> child_status scenario_C = 127
   \<and> spawned (snd (check_openssl_dependency (only_cargo scenario_C)
         \<lparr>spawned = [[''git'', ''status'']], printed = ''earlier''\<rparr>)) =
       [[''git'', ''status''], [''cargo'', ''tree'', ''-i'', ''openssl'', ''--workspace'']]
   \<and> fst (check_openssl_dependency (only_cargo scenario_C)
         \<lparr>spawned = [[''git'', ''status'']], printed = ''earlier''\<rparr>) \<noteq> Inl (CalledProcessError 127)
   \<and> fst (check_openssl_dependency (only_cargo scenario_C)
         \<lparr>spawned = [[''git'', ''status'']], printed = ''earlier''\<rparr>) = Inl (SystemExit 1)
   \<and> printed (snd (check_openssl_dependency (only_cargo scenario_C)
         \<lparr>spawned = [[''git'', ''status'']], printed = ''earlier''\<rparr>)) =
       ''earlier'' @ CHR 0x1B # ''[91mError: Unexpected error message.''
       @ CHR 0x1B # ''[0m'' @ [CHR 0x0A] @ ''command not found'' @ [CHR 0x0A]"
proof -
  have rc: "child_status scenario_C = 127"
    by (simp add: scenario_C_def)
  have decoded: "decode (only_cargo scenario_C) (child_stdout scenario_C) = Some ''''"
    "decode (only_cargo scenario_C) (child_stderr scenario_C) = Some ''command not found''"
    by (simp_all only: only_cargo_decode scenario_C_text)
  from invokes_cargo_tree_unchecked [of "only_cargo scenario_C"
      "\<lparr>spawned = [[''git'', ''status'']], printed = ''earlier''\<rparr>" 127 scenario_C "''''"
      "''command not found''"]
    rc decoded only_cargo_execute [of scenario_C] message_not_in_command_not_found
  show ?thesis by simp
qed

subsection \<open>Colour codes\<close>

text \<open>
  Claim C7. A status line is the colour code (\<^verbatim>\<open>ESC[92m\<close> green for success,
  \<^verbatim>\<open>ESC[91m\<close> red for errors), the message and the reset code \<^verbatim>\<open>ESC[0m\<close>; the captured
  standard output or standard error of the command follows it on the next line as it is,
  with no escape code added.
\<close>

theorem status_line_wrapped_text_plain:
  assumes "fst (subprocess_run env [''cargo'', ''tree'', ''-i'', ''openssl'', ''--workspace'']
                  True True False \<lparr>spawned = [], printed = []\<rparr>) = Inr result"
  shows "printed (colored_print message color w) =
           printed w
           @ (case color of GREEN \<Rightarrow> CHR 0x1B # ''[92m'' | RED \<Rightarrow> CHR 0x1B # ''[91m''
                | RESET \<Rightarrow> CHR 0x1B # ''[0m'')
           @ message @ CHR 0x1B # ''[0m'' @ [CHR 0x0A]
         \<and> printed (snd (script env)) =
           (if fst (script env) = 0 then CHR 0x1B # ''[92m'' else CHR 0x1B # ''[91m'')
           @ (if returncode result = 0 then ''Error: openssl is part of the dependencies tree''
              else if sublist ''package ID specification `openssl` did not match any packages''
                        (py_str (stderr result))
              then ''Success: openssl is not part of the dependencies tree.''
              else ''Error: Unexpected error message.'')
           @ CHR 0x1B # ''[0m'' @ [CHR 0x0A]
           @ (if returncode result = 0 then py_str (stdout result) @ [CHR 0x0A]
              else if sublist ''package ID specification `openssl` did not match any packages''
                        (py_str (stderr result))
              then []
              else py_str (stderr result) @ [CHR 0x0A])"
proof
  show "printed (colored_print message color w) =
           printed w
           @ (case color of GREEN \<Rightarrow> CHR 0x1B # ''[92m'' | RED \<Rightarrow> CHR 0x1B # ''[91m''
                | RESET \<Rightarrow> CHR 0x1B # ''[0m'')
           @ message @ CHR 0x1B # ''[0m'' @ [CHR 0x0A]"
    by (cases color) (simp_all add: colored_print_def print_py_def)
next
  show "printed (snd (script env)) =
           (if fst (script env) = 0 then CHR 0x1B # ''[92m'' else CHR 0x1B # ''[91m'')
           @ (if returncode result = 0 then ''Error: openssl is part of the dependencies tree''
              else if sublist ''package ID specification `openssl` did not match any packages''
                        (py_str (stderr result))
              then ''Success: openssl is not part of the dependencies tree.''
              else ''Error: Unexpected error message.'')
           @ CHR 0x1B # ''[0m'' @ [CHR 0x0A]
           @ (if returncode result = 0 then py_str (stdout result) @ [CHR 0x0A]
              else if sublist ''package ID specification `openssl` did not match any packages''
                        (py_str (stderr result))
              then []
              else py_str (stderr result) @ [CHR 0x0A])"
    by (simp add: script_returned [OF assms])
qed

text \<open>The same at a concrete run of the command.\<close>

theorem status_line_wrapped_text_plain_witness:
  "fst (subprocess_run (only_cargo scenario_C) [''cargo'', ''tree'', ''-i'', ''openssl'', ''--workspace'']
          True True False \<lparr>spawned = [], printed = []\<rparr>)
     = Inr \<lparr>returncode = 127, stdout = PyStr '''', stderr = PyStr ''command not found''\<rparr>
   \<and> printed (colored_print ''ok'' GREEN \<lparr>spawned = [], printed = ''x''\<rparr>) =
       ''x'' @ CHR 0x1B # ''[92mok'' @ CHR 0x1B # ''[0m'' @ [CHR 0x0A]
   \<and> printed (snd (script (only_cargo scenario_C))) =
       CHR 0x1B # ''[91mError: Unexpected error message.'' @ CHR 0x1B # ''[0m'' @ [CHR 0x0A]
       @ ''command not found'' @ [CHR 0x0A]"
proof -
  have returned: "fst (subprocess_run (only_cargo scenario_C)
          [''cargo'', ''tree'', ''-i'', ''openssl'', ''--workspace'']
          True True False \<lparr>spawned = [], printed = []\<rparr>)
     = Inr \<lparr>returncode = 127, stdout = PyStr '''', stderr = PyStr ''command not found''\<rparr>"
    using returned_by_only_cargo [OF scenario_C_text] by (simp add: scenario_C_def)
  have code: "fst (script (only_cargo scenario_C)) = 1"
    using message_not_in_command_not_found by (simp add: script_returned [OF returned])
  from returned code message_not_in_command_not_found
    status_line_wrapped_text_plain [OF returned, of "''ok''" GREEN "\<lparr>spawned = [], printed = ''x''\<rparr>"]
  show ?thesis by simp
qed

subsection \<open>Standard output does not decide\<close>

text \<open>
  Claim C8. For two runs of the command with the same exit status and the same standard
  error, whatever their standard outputs, the outcome and the exit code are the same.

  As stated this fails: with status 101 and the expected text on standard error in a UTF-8
  locale, an empty standard output gives exit code 0 and the byte 0xFF on standard output
  gives exit code 1.
\<close>

theorem stdout_never_decides_refuted:
  "execute (only_cargo absent_no_stdout) [''cargo'', ''tree'', ''-i'', ''openssl'', ''--workspace'']
     = Some absent_no_stdout
   \<and> execute (only_cargo absent_bad_stdout) [''cargo'', ''tree'', ''-i'', ''openssl'', ''--workspace'']
     = Some absent_bad_stdout
   \<and> child_status absent_no_stdout = child_status absent_bad_stdout
   \<and> child_stderr absent_no_stdout = child_stderr absent_bad_stdout
   \<and> child_stdout absent_no_stdout = []
   \<and> child_stdout absent_bad_stdout = [CHR 0xFF]
   \<and> fst (script (only_cargo absent_no_stdout)) = 0
   \<and> fst (script (only_cargo absent_bad_stdout)) = 1"
proof -
  have fields: "child_status absent_no_stdout = child_status absent_bad_stdout"
    "child_stderr absent_no_stdout = child_stderr absent_bad_stdout"
    "child_stdout absent_no_stdout = []" "child_stdout absent_bad_stdout = [CHR 0xFF]"
    by (simp_all add: absent_no_stdout_def absent_bad_stdout_def)
  have rc: "child_status absent_no_stdout \<noteq> 0"
    by (simp add: absent_no_stdout_def)
  have decoded: "decode (only_cargo absent_no_stdout) (child_stdout absent_no_stdout) = Some ''''"
    "decode (only_cargo absent_no_stdout) (child_stderr absent_no_stdout) =
       Some ''error: package ID specification `openssl` did not match any packages''"
    by (simp_all only: only_cargo_decode absent_no_stdout_text)
  have good: "fst (script (only_cargo absent_no_stdout)) = 0"
    using rc message_after_prefix
    by (simp add: script_decoded [OF only_cargo_execute decoded])
  have undecodable: "decode (only_cargo absent_bad_stdout) (child_stdout absent_bad_stdout) = None"
    by (simp add: only_cargo_decode bad_bytes)
  have "script (only_cargo absent_bad_stdout) =
      (1, \<lparr>spawned = [[''cargo'', ''tree'', ''-i'', ''openssl'', ''--workspace'']], printed = []\<rparr>)"
    using only_cargo_execute undecodable by (rule script_undecodable [OF _ disjI1])
  then have bad: "fst (script (only_cargo absent_bad_stdout)) = 1"
    by simp
  from only_cargo_execute [of absent_no_stdout] only_cargo_execute [of absent_bad_stdout]
    fields good bad
  show ?thesis by (simp only: simp_thms)
qed

text \<open>
  Claim C8, amended. For two results returned by the call with the same exit status and the
  same standard error, whatever their standard outputs, the outcome and the exit code of the
  run are the same; the standard output only appears as the text echoed after the red line
  when the status is 0, and otherwise the printed text is the same too.
\<close>

theorem stdout_never_decides:
  assumes "fst (subprocess_run env1 [''cargo'', ''tree'', ''-i'', ''openssl'', ''--workspace'']
                  True True False \<lparr>spawned = [], printed = []\<rparr>) = Inr r1"
    and "fst (subprocess_run env2 [''cargo'', ''tree'', ''-i'', ''openssl'', ''--workspace'']
                  True True False \<lparr>spawned = [], printed = []\<rparr>) = Inr r2"
    and "returncode r1 = returncode r2"
    and "stderr r1 = stderr r2"
  shows "(exhibits oc r1 (script env1) \<longleftrightarrow> exhibits oc r2 (script env2))
         \<and> fst (script env1) = fst (script env2)
         \<and> (if returncode r1 = 0
            then printed (snd (script env1)) =
                   CHR 0x1B # ''[91mError: openssl is part of the dependencies tree''
                   @ CHR 0x1B # ''[0m'' @ [CHR 0x0A] @ py_str (stdout r1) @ [CHR 0x0A]
                 \<and> printed (snd (script env2)) =
                   CHR 0x1B # ''[91mError: openssl is part of the dependencies tree''
                   @ CHR 0x1B # ''[0m'' @ [CHR 0x0A] @ py_str (stdout r2) @ [CHR 0x0A]
            else printed (snd (script env1)) = printed (snd (script env2)))"
proof -
  note run1 = script_returned [OF assms(1)] and run2 = script_returned [OF assms(2)]
  consider (zero) "returncode r1 = 0"
    | (match) "returncode r1 \<noteq> 0"
        "sublist ''package ID specification `openssl` did not match any packages''
           (py_str (stderr r1))"
    | (other) "returncode r1 \<noteq> 0"
        "\<not> sublist ''package ID specification `openssl` did not match any packages''
             (py_str (stderr r1))"
    by blast
  then show ?thesis
  proof cases
    case zero
    with assms(3,4) show ?thesis
      by (cases oc) (simp_all add: run1 run2)
  next
    case match
    with assms(3,4) show ?thesis
      by (cases oc) (simp_all add: run1 run2)
  next
    case other
    with assms(3,4) show ?thesis
      by (cases oc) (simp_all add: run1 run2)
  qed
qed

text \<open>The same at a concrete run of the command.\<close>

theorem stdout_never_decides_witness:
  "fst (subprocess_run (only_cargo scenario_A) [''cargo'', ''tree'', ''-i'', ''openssl'', ''--workspace'']
          True True False \<lparr>spawned = [], printed = []\<rparr>)
     = Inr \<lparr>returncode = 0, stdout = PyStr ''openssl v0.10.0'', stderr = PyStr ''''\<rparr>
   \<and> fst (subprocess_run (only_cargo scenario_A_newer)
          [''cargo'', ''tree'', ''-i'', ''openssl'', ''--workspace'']
          True True False \<lparr>spawned = [], printed = []\<rparr>)
     = Inr \<lparr>returncode = 0, stdout = PyStr ''openssl v3.0.0'', stderr = PyStr ''''\<rparr>
   \<and> (exhibits Forbidden \<lparr>returncode = 0, stdout = PyStr ''openssl v0.10.0'', stderr = PyStr ''''\<rparr>
          (script (only_cargo scenario_A))
        \<longleftrightarrow> exhibits Forbidden \<lparr>returncode = 0, stdout = PyStr ''openssl v3.0.0'', stderr = PyStr ''''\<rparr>
          (script (only_cargo scenario_A_newer)))
   \<and> fst (script (only_cargo scenario_A)) = fst (script (only_cargo scenario_A_newer))
   \<and> printed (snd (script (only_cargo scenario_A))) =
       CHR 0x1B # ''[91mError: openssl is part of the dependencies tree''
       @ CHR 0x1B # ''[0m'' @ [CHR 0x0A] @ ''openssl v0.10.0'' @ [CHR 0x0A]
   \<and> printed (snd (script (only_cargo scenario_A_newer))) =
       CHR 0x1B # ''[91mError: openssl is part of the dependencies tree''
       @ CHR 0x1B # ''[0m'' @ [CHR 0x0A] @ ''openssl v3.0.0'' @ [CHR 0x0A]"
proof -
  have first: "fst (subprocess_run (only_cargo scenario_A)
          [''cargo'', ''tree'', ''-i'', ''openssl'', ''--workspace'']
          True True False \<lparr>spawned = [], printed = []\<rparr>)
     = Inr \<lparr>returncode = 0, stdout = PyStr ''openssl v0.10.0'', stderr = PyStr ''''\<rparr>"
    using returned_by_only_cargo [OF scenario_A_text] by (simp add: scenario_A_def)
  have second: "fst (subprocess_run (only_cargo scenario_A_newer)
          [''cargo'', ''tree'', ''-i'', ''openssl'', ''--workspace'']
          True True False \<lparr>spawned = [], printed = []\<rparr>)
     = Inr \<lparr>returncode = 0, stdout = PyStr ''openssl v3.0.0'', stderr = PyStr ''''\<rparr>"
    using returned_by_only_cargo [OF scenario_A_newer_text] by (simp add: scenario_A_newer_def)
  from first second stdout_never_decides [OF first second, of Forbidden]
  show ?thesis by simp
qed

subsection \<open>Nothing but the success line\<close>

text \<open>
  Claim C9. In the \<open>Absent\<close> outcome the green success line is all that is printed, a single
  line: the printed text is the same for every captured standard output and standard error,
  which are dropped.
\<close>

theorem absent_prints_only_success_line:
  assumes "fst (subprocess_run env1 [''cargo'', ''tree'', ''-i'', ''openssl'', ''--workspace'']
                  True True False \<lparr>spawned = [], printed = []\<rparr>) = Inr r1"
    and "returncode r1 \<noteq> 0"
    and "sublist ''package ID specification `openssl` did not match any packages''
           (py_str (stderr r1))"
    and "fst (subprocess_run env2 [''cargo'', ''tree'', ''-i'', ''openssl'', ''--workspace'']
                  True True False \<lparr>spawned = [], printed = []\<rparr>) = Inr r2"
    and "returncode r2 \<noteq> 0"
    and "sublist ''package ID specification `openssl` did not match any packages''
           (py_str (stderr r2))"
  shows "printed (snd (script env1)) =
           CHR 0x1B # ''[92mSuccess: openssl is not part of the dependencies tree.''
           @ CHR 0x1B # ''[0m'' @ [CHR 0x0A]
         \<and> count_list (printed (snd (script env1))) (CHR 0x0A) = 1
         \<and> printed (snd (script env2)) = printed (snd (script env1))"
  using assms(2,3,5,6)
  by (simp add: script_returned [OF assms(1)] script_returned [OF assms(4)])

text \<open>The same at a concrete run of the command.\<close>

theorem absent_prints_only_success_line_witness:
  "fst (subprocess_run (only_cargo scenario_B) [''cargo'', ''tree'', ''-i'', ''openssl'', ''--workspace'']
          True True False \<lparr>spawned = [], printed = []\<rparr>)
     = Inr \<lparr>returncode = 1, stdout = PyStr '''',
            stderr = PyStr ''error: package ID specification `openssl` did not match any packages''\<rparr>
   \<and> fst (subprocess_run (only_cargo scenario_B_noisy)
          [''cargo'', ''tree'', ''-i'', ''openssl'', ''--workspace'']
          True True False \<lparr>spawned = [], printed = []\<rparr>)
     = Inr \<lparr>returncode = 101, stdout = PyStr ''some output'',
            stderr = PyStr (''warning: unused manifest key'' @ [CHR 0x0A]
              @ ''error: package ID specification `openssl` did not match any packages''
              @ [CHR 0x0A])\<rparr>
   \<and> printed (snd (script (only_cargo scenario_B))) =
       CHR 0x1B # ''[92mSuccess: openssl is not part of the dependencies tree.''
       @ CHR 0x1B # ''[0m'' @ [CHR 0x0A]
   \<and> count_list (printed (snd (script (only_cargo scenario_B)))) (CHR 0x0A) = 1
   \<and> printed (snd (script (only_cargo scenario_B_noisy)))
       = printed (snd (script (only_cargo scenario_B)))"
proof -
  have first: "fst (subprocess_run (only_cargo scenario_B)
          [''cargo'', ''tree'', ''-i'', ''openssl'', ''--workspace'']
          True True False \<lparr>spawned = [], printed = []\<rparr>)
     = Inr \<lparr>returncode = 1, stdout = PyStr '''',
            stderr = PyStr ''error: package ID specification `openssl` did not match any packages''\<rparr>"
    using returned_by_only_cargo [OF scenario_B_text] by (simp add: scenario_B_def)
  have second: "fst (subprocess_run (only_cargo scenario_B_noisy)
          [''cargo'', ''tree'', ''-i'', ''openssl'', ''--workspace'']
          True True False \<lparr>spawned = [], printed = []\<rparr>)
     = Inr \<lparr>returncode = 101, stdout = PyStr ''some output'',
            stderr = PyStr (''warning: unused manifest key'' @ [CHR 0x0A]
              @ ''error: package ID specification `openssl` did not match any packages''
              @ [CHR 0x0A])\<rparr>"
    using returned_by_only_cargo [OF scenario_B_noisy_text] by (simp add: scenario_B_noisy_def)
  have "printed (snd (script (only_cargo scenario_B))) =
           CHR 0x1B # ''[92mSuccess: openssl is not part of the dependencies tree.''
           @ CHR 0x1B # ''[0m'' @ [CHR 0x0A]
         \<and> count_list (printed (snd (script (only_cargo scenario_B)))) (CHR 0x0A) = 1
         \<and> printed (snd (script (only_cargo scenario_B_noisy)))
             = printed (snd (script (only_cargo scenario_B)))"
  proof (rule absent_prints_only_success_line [OF first _ _ second])
    show "returncode \<lparr>returncode = 1, stdout = PyStr '''',
            stderr = PyStr ''error: package ID specification `openssl` did not match any packages''\<rparr>
          \<noteq> 0"
      by simp
    show "sublist ''package ID specification `openssl` did not match any packages''
       (py_str (stderr \<lparr>returncode = 1, stdout = PyStr '''',
            stderr = PyStr ''error: package ID specification `openssl` did not match any packages''\<rparr>))"
      using message_after_prefix by simp
    show "returncode \<lparr>returncode = 101, stdout = PyStr ''some output'',
            stderr = PyStr (''warning: unused manifest key'' @ [CHR 0x0A]
              @ ''error: package ID specification `openssl` did not match any packages''
              @ [CHR 0x0A])\<rparr> \<noteq> 0"
      by simp
    show "sublist ''package ID specification `openssl` did not match any packages''
       (py_str (stderr \<lparr>returncode = 101, stdout = PyStr ''some output'',
            stderr = PyStr (''warning: unused manifest key'' @ [CHR 0x0A]
              @ ''error: package ID specification `openssl` did not match any packages''
              @ [CHR 0x0A])\<rparr>))"
      using message_between_lines by (simp only: CompletedProcess.simps py_str.simps)
  qed
  with first second show ?thesis
    by blast
qed

subsection \<open>Only status 0 is forbidden\<close>

text \<open>
  Claim C10. Only the exit status 0 gives \<open>Forbidden\<close>; for every other status the substring
  test on the standard error alone decides between \<open>Absent\<close> and \<open>UnexpectedError\<close>.

  As stated this fails: with status 101, the expected text on standard error and the byte
  0xFF on standard output in a UTF-8 locale, the run shows none of the three outcomes.
\<close>

theorem forbidden_only_for_status_zero_refuted:
  "execute (only_cargo absent_bad_stdout) [''cargo'', ''tree'', ''-i'', ''openssl'', ''--workspace'']
     = Some absent_bad_stdout
   \<and> child_status absent_bad_stdout \<noteq> 0
   \<and> sublist ''package ID specification `openssl` did not match any packages''
        (child_stderr absent_bad_stdout)
   \<and> \<not> exhibits Forbidden
         \<lparr>returncode = 101, stdout = PyBytes [CHR 0xFF],
          stderr = PyStr ''error: package ID specification `openssl` did not match any packages''\<rparr>
         (script (only_cargo absent_bad_stdout))
   \<and> \<not> exhibits Absent
         \<lparr>returncode = 101, stdout = PyBytes [CHR 0xFF],
          stderr = PyStr ''error: package ID specification `openssl` did not match any packages''\<rparr>
         (script (only_cargo absent_bad_stdout))
   \<and> \<not> exhibits UnexpectedError
         \<lparr>returncode = 101, stdout = PyBytes [CHR 0xFF],
          stderr = PyStr ''error: package ID specification `openssl` did not match any packages''\<rparr>
         (script (only_cargo absent_bad_stdout))"
proof -
  have fields: "child_status absent_bad_stdout \<noteq> 0"
    "child_stderr absent_bad_stdout =
       ''error: package ID specification `openssl` did not match any packages''"
    by (simp_all add: absent_bad_stdout_def)
  have undecodable: "decode (only_cargo absent_bad_stdout) (child_stdout absent_bad_stdout) = None"
    by (simp add: only_cargo_decode bad_bytes)
  have run: "script (only_cargo absent_bad_stdout) =
      (1, \<lparr>spawned = [[''cargo'', ''tree'', ''-i'', ''openssl'', ''--workspace'']], printed = []\<rparr>)"
    using only_cargo_execute undecodable by (rule script_undecodable [OF _ disjI1])
  from only_cargo_execute [of absent_bad_stdout] fields message_after_prefix
  show ?thesis by (simp add: run)
qed

text \<open>
  Claim C10, amended. For every result returned by the call, the run shows \<open>Forbidden\<close>
  exactly when the exit status is 0; for every other status, the negative ones of a child
  killed by a signal included, the substring test on the standard error alone decides between
  \<open>Absent\<close> and \<open>UnexpectedError\<close>.
\<close>

theorem forbidden_only_for_status_zero:
  assumes "fst (subprocess_run env [''cargo'', ''tree'', ''-i'', ''openssl'', ''--workspace'']
                  True True False \<lparr>spawned = [], printed = []\<rparr>) = Inr result"
  shows "(exhibits Forbidden result (script env) \<longleftrightarrow> returncode result = 0)
         \<and> (returncode result \<noteq> 0 \<longrightarrow>
              (exhibits Absent result (script env) \<longleftrightarrow>
                 sublist ''package ID specification `openssl` did not match any packages''
                   (py_str (stderr result)))
              \<and> (exhibits UnexpectedError result (script env) \<longleftrightarrow>
                 \<not> sublist ''package ID specification `openssl` did not match any packages''
                     (py_str (stderr result))))"
  by (simp add: script_returned [OF assms])

text \<open>The same at a concrete run of the command.\<close>

theorem forbidden_only_for_status_zero_witness:
  "fst (subprocess_run (only_cargo killed_by_signal)
          [''cargo'', ''tree'', ''-i'', ''openssl'', ''--workspace'']
          True True False \<lparr>spawned = [], printed = []\<rparr>)
     = Inr \<lparr>returncode = - 9, stdout = PyStr ''partial'', stderr = PyStr ''''\<rparr>
   \<and> \<not> exhibits Forbidden \<lparr>returncode = - 9, stdout = PyStr ''partial'', stderr = PyStr ''''\<rparr>
         (script (only_cargo killed_by_signal))
   \<and> \<not> exhibits Absent \<lparr>returncode = - 9, stdout = PyStr ''partial'', stderr = PyStr ''''\<rparr>
         (script (only_cargo killed_by_signal))
   \<and> exhibits UnexpectedError \<lparr>returncode = - 9, stdout = PyStr ''partial'', stderr = PyStr ''''\<rparr>
         (script (only_cargo killed_by_signal))"
proof -
  have returned: "fst (subprocess_run (only_cargo killed_by_signal)
          [''cargo'', ''tree'', ''-i'', ''openssl'', ''--workspace'']
          True True False \<lparr>spawned = [], printed = []\<rparr>)
     = Inr \<lparr>returncode = - 9, stdout = PyStr ''partial'', stderr = PyStr ''''\<rparr>"
    using returned_by_only_cargo [OF killed_by_signal_text] by (simp add: killed_by_signal_def)
  from returned forbidden_only_for_status_zero [OF returned]
  show ?thesis by simp
qed

end
